theory Spec2Isabelle
  imports Complex_Main "HOL-Library.Word"
begin

unbundle bit_operations_syntax

section \<open>Python values and exceptions\<close>

text \<open>
  The two modules are Python 3 (\<^verbatim>\<open>super().__init__\<close>, \<^verbatim>\<open>int.from_bytes\<close>,
  \<^verbatim>\<open>bytes(32)\<close>). A byte string is a list of 8-bit words, an integer is an unbounded
  \<open>int\<close>, and every exception the code can raise is a value of \<open>error\<close>, named as Python
  names it (\<open>StructError\<close> is \<^verbatim>\<open>struct.error\<close>).
\<close>

type_synonym bytes = "8 word list"

datatype error =
  AttributeError | TypeError | ValueError | StructError | IndexError | ZeroDivisionError

text \<open>
  Python 3 numbers as the arithmetic operators see them. The operator \<^verbatim>\<open>/\<close> always
  yields a float, also on two integers; \<open>PyFloat q\<close> stands for the double nearest to the
  rational \<open>q\<close>. The quotients taken in utils.py lie far inside the range of a double
  (no OverflowError); they are halves of small integers, which are exact, and the block
  reward, whose rounding changes none of the comparisons made below. The shifts accept
  integers only.
\<close>

datatype pynum = PyInt int | PyFloat rat

fun py_truediv :: "pynum \<Rightarrow> pynum \<Rightarrow> error + pynum" where
  "py_truediv a b =
     (let x = (case a of PyInt i \<Rightarrow> of_int i | PyFloat q \<Rightarrow> q);
          y = (case b of PyInt i \<Rightarrow> of_int i | PyFloat q \<Rightarrow> q)
      in if y = 0 then Inl ZeroDivisionError else Inr (PyFloat (x / y)))"

fun py_add :: "pynum \<Rightarrow> pynum \<Rightarrow> pynum" where
  "py_add (PyInt a) (PyInt b) = PyInt (a + b)"
| "py_add (PyInt a) (PyFloat b) = PyFloat (of_int a + b)"
| "py_add (PyFloat a) (PyInt b) = PyFloat (a + of_int b)"
| "py_add (PyFloat a) (PyFloat b) = PyFloat (a + b)"

fun py_sub :: "pynum \<Rightarrow> pynum \<Rightarrow> pynum" where
  "py_sub (PyInt a) (PyInt b) = PyInt (a - b)"
| "py_sub (PyInt a) (PyFloat b) = PyFloat (of_int a - b)"
| "py_sub (PyFloat a) (PyInt b) = PyFloat (a - of_int b)"
| "py_sub (PyFloat a) (PyFloat b) = PyFloat (a - b)"

fun py_mul :: "pynum \<Rightarrow> pynum \<Rightarrow> pynum" where
  "py_mul (PyInt a) (PyInt b) = PyInt (a * b)"
| "py_mul (PyInt a) (PyFloat b) = PyFloat (of_int a * b)"
| "py_mul (PyFloat a) (PyInt b) = PyFloat (a * of_int b)"
| "py_mul (PyFloat a) (PyFloat b) = PyFloat (a * b)"

text \<open>\<^verbatim>\<open>a << n\<close> and \<^verbatim>\<open>a >> n\<close>: a negative count raises ValueError, a float operand
  raises TypeError.\<close>

definition int_lshift :: "int \<Rightarrow> int \<Rightarrow> error + int" where
  "int_lshift a n = (if n < 0 then Inl ValueError else Inr (push_bit (nat n) a))"

definition int_rshift :: "int \<Rightarrow> int \<Rightarrow> error + int" where
  "int_rshift a n = (if n < 0 then Inl ValueError else Inr (drop_bit (nat n) a))"

fun py_lshift :: "pynum \<Rightarrow> pynum \<Rightarrow> error + pynum" where
  "py_lshift (PyInt a) (PyInt n) = map_sum id PyInt (int_lshift a n)"
| "py_lshift _ _ = Inl TypeError"

fun py_rshift :: "pynum \<Rightarrow> pynum \<Rightarrow> error + pynum" where
  "py_rshift (PyInt a) (PyInt n) = map_sum id PyInt (int_rshift a n)"
| "py_rshift _ _ = Inl TypeError"

section \<open>utils.py: fixed-width and compact integers\<close>

text \<open>\<^verbatim>\<open>struct.pack\<close> of one unsigned little-endian field of \<open>n\<close> bytes, and
  \<^verbatim>\<open>struct.unpack\<close> of it: the first raises on a value out of range, the second on a
  buffer that is not exactly \<open>n\<close> bytes long.\<close>

fun le_bytes :: "nat \<Rightarrow> int \<Rightarrow> bytes" where
  "le_bytes 0 i = []"
| "le_bytes (Suc n) i = word_of_int i # le_bytes n (drop_bit 8 i)"

fun le_int :: "bytes \<Rightarrow> int" where
  "le_int [] = 0"
| "le_int (b # bs) = uint b + 256 * le_int bs"

definition struct_pack_le :: "nat \<Rightarrow> int \<Rightarrow> error + bytes" where
  "struct_pack_le n i =
     (if 0 \<le> i \<and> i < 2 ^ (8 * n) then Inr (le_bytes n i) else Inl StructError)"

definition struct_unpack_le :: "nat \<Rightarrow> bytes \<Rightarrow> error + int" where
  "struct_unpack_le n b = (if length b = n then Inr (le_int b) else Inl StructError)"

definition pack_u32 :: "int \<Rightarrow> error + bytes" where
  "pack_u32 i = struct_pack_le 4 i"

definition unpack_u32 :: "bytes \<Rightarrow> error + int \<times> bytes" where
  "unpack_u32 b =
     (case struct_unpack_le 4 (take 4 b) of
        Inl e \<Rightarrow> Inl e
      | Inr u32 \<Rightarrow> Inr (u32, drop 4 b))"

definition pack_compact_int :: "int \<Rightarrow> error + bytes" where
  "pack_compact_int i =
     (if i < 0xfd then struct_pack_le 1 i
      else if i \<le> 0xffff then map_sum id ((#) 0xfd) (struct_pack_le 2 i)
      else if i \<le> 0xffffffff then map_sum id ((#) 0xfe) (struct_pack_le 4 i)
      else map_sum id ((#) 0xff) (struct_pack_le 8 i))"

text \<open>\<^verbatim>\<open>unpack_compact_int\<close> returns a pair, or Python's \<open>None\<close> in its last branch
  (which no byte reaches); its result is \<open>Inr None\<close> there, and the caller's tuple
  assignment is what would raise.\<close>

definition unpack_compact_int :: "bytes \<Rightarrow> error + (int \<times> bytes) option" where
  "unpack_compact_int bytestr =
     (case bytestr of
        [] \<Rightarrow> Inl IndexError
      | b0 # _ \<Rightarrow>
          if b0 < 0xfd then Inr (Some (uint b0, drop 1 bytestr))
          else if b0 = 0xfd then
            map_sum id (\<lambda>n. Some (n, drop 3 bytestr)) (struct_unpack_le 2 (take 2 (drop 1 bytestr)))
          else if b0 = 0xfe then
            map_sum id (\<lambda>n. Some (n, drop 5 bytestr)) (struct_unpack_le 4 (take 4 (drop 1 bytestr)))
          else if b0 = 0xff then
            map_sum id (\<lambda>n. Some (n, drop 9 bytestr)) (struct_unpack_le 8 (take 8 (drop 1 bytestr)))
          else Inr None)"

section \<open>utils.py: compact target and block reward\<close>

definition decode_compact_target :: "int \<Rightarrow> error + int" where
  "decode_compact_target bits =
     (let shift = drop_bit 24 bits in
      case int_lshift 1 (8 * (shift - 3)) of
        Inl e \<Rightarrow> Inl e
      | Inr p \<Rightarrow> Inr ((bits AND 0xffffff) * p))"

text \<open>The \<^verbatim>\<open>'%x' % target\<close> of \<^verbatim>\<open>encode_compact_target\<close>: lower-case hexadecimal
  digits, most significant first, after a minus sign for a negative number.\<close>

definition hex_digit :: "nat \<Rightarrow> char" where
  "hex_digit d = ''0123456789abcdef'' ! d"

function hex_nat :: "nat \<Rightarrow> string" where
  "hex_nat n = (if n < 16 then [hex_digit n] else hex_nat (n div 16) @ [hex_digit (n mod 16)])"
  by pat_completeness auto
termination
  by (relation "measure id") auto

definition py_format_x :: "int \<Rightarrow> string" where
  "py_format_x n = (if n < 0 then CHR ''-'' # hex_nat (nat (- n)) else hex_nat (nat n))"

definition encode_compact_target :: "int \<Rightarrow> error + pynum" where
  "encode_compact_target target =
     (let hex_target = py_format_x target in
      case py_truediv (PyInt (int (length hex_target) + 1)) (PyInt 2) of
        Inl e \<Rightarrow> Inl e
      | Inr shift \<Rightarrow>
          (case py_rshift (PyInt target) (py_mul (PyInt 8) (py_sub shift (PyInt 3))) of
             Inl e \<Rightarrow> Inl e
           | Inr prefix \<Rightarrow>
               (case py_lshift shift (PyInt 24) of
                  Inl e \<Rightarrow> Inl e
                | Inr s \<Rightarrow> Inr (py_add s prefix))))"

definition compute_reward :: "int \<Rightarrow> error + pynum" where
  "compute_reward height =
     (let era = height div 210000 in
      py_truediv (PyInt (50 * 100000000)) (PyInt (era + 1)))"

section \<open>External collaborators\<close>

text \<open>
  \<^verbatim>\<open>dhash\<close> is \<^verbatim>\<open>hashlib\<close>'s SHA-256 applied twice. The model takes it as a
  parameter \<open>dh\<close> of every function that hashes, so that each theorem holds for every hash
  function; where a theorem needs the digest's length, it says so.
\<close>

text \<open>
  Modelled from the spec: the \<^verbatim>\<open>Transaction\<close> and \<^verbatim>\<open>CoinbaseInput\<close> classes of
  \<^verbatim>\<open>two1.bitcoin.txn\<close>, which block.py imports and which are not among the sources. The
  spec gives their interface: a hash (32 bytes, internal order), a serialization, an input
  count and a predicate that tells a coinbase input from a spending one. A transaction is
  its hash, its inputs by kind and its serialized bytes; \<^verbatim>\<open>num_inputs\<close> is the number of
  inputs; \<^verbatim>\<open>Transaction.from_bytes\<close> is a parameter \<open>tfb\<close> of the block parser.
\<close>

datatype txn_input = CoinbaseInput | TransactionInput

record Transaction =
  txn_hash :: bytes
  inputs :: "txn_input list"
  txn_bytes :: bytes

definition num_inputs :: "Transaction \<Rightarrow> int" where
  "num_inputs t = int (length (inputs t))"

definition isinstance_CoinbaseInput :: "txn_input \<Rightarrow> bool" where
  "isinstance_CoinbaseInput i = (i = CoinbaseInput)"

text \<open>
  Modelled from the spec: the \<^verbatim>\<open>sha256\<close> class of \<^verbatim>\<open>two1.bitcoin.sha256\<close>, not among
  the sources. \<open>sha\<close>, a parameter, maps the bytes fed to the object to its
  \<^verbatim>\<open>mid_state\<close>, a sequence of integers. \<^verbatim>\<open>struct.pack('>8I', *xs)\<close> raises unless
  \<open>xs\<close> are exactly eight values of 32 bits.
\<close>

definition is_u32 :: "int \<Rightarrow> bool" where
  "is_u32 x = (0 \<le> x \<and> x < 2 ^ 32)"

definition be_bytes :: "nat \<Rightarrow> int \<Rightarrow> bytes" where
  "be_bytes n i = rev (le_bytes n i)"

definition struct_pack_8I :: "int list \<Rightarrow> error + bytes" where
  "struct_pack_8I xs =
     (if length xs = 8 \<and> list_all is_u32 xs
      then Inr (concat (map (be_bytes 4) xs))
      else Inl StructError)"

section \<open>block.py: MerkleNode and BlockHeader\<close>

text \<open>
  \<^verbatim>\<open>MerkleNode\<close> is a namedtuple of a hash and two children. The code builds it in two
  shapes only, \<^verbatim>\<open>MerkleNode(h, None, None)\<close> and \<^verbatim>\<open>MerkleNode(h, left, right)\<close> with
  two nodes: the constructors \<open>Leaf\<close> and \<open>Node\<close>. A namedtuple is immutable: assigning
  to an attribute of one raises AttributeError.
\<close>

datatype MerkleNode = Leaf bytes | Node bytes MerkleNode MerkleNode

fun node_hash :: "MerkleNode \<Rightarrow> bytes" where
  "node_hash (Leaf h) = h"
| "node_hash (Node h l r) = h"

record BlockHeader =
  version :: int
  prev_block_hash :: bytes
  merkle_root_hash :: bytes
  time :: int
  bits :: int
  nonce :: int

definition BlockHeader_from_bytes :: "bytes \<Rightarrow> error + BlockHeader \<times> bytes" where
  "BlockHeader_from_bytes b0 =
     (case unpack_u32 b0 of Inl e \<Rightarrow> Inl e | Inr (v, b1) \<Rightarrow>
      let p = take 32 b1; b2 = drop 32 b1;
          m = take 32 b2; b3 = drop 32 b2 in
      case unpack_u32 b3 of Inl e \<Rightarrow> Inl e | Inr (t, b4) \<Rightarrow>
      case unpack_u32 b4 of Inl e \<Rightarrow> Inl e | Inr (bi, b5) \<Rightarrow>
      case unpack_u32 b5 of Inl e \<Rightarrow> Inl e | Inr (n, b6) \<Rightarrow>
        Inr (\<lparr>version = v, prev_block_hash = p, merkle_root_hash = m,
              time = t, bits = bi, nonce = n\<rparr>, b6))"

definition BlockHeader_bytes :: "BlockHeader \<Rightarrow> error + bytes" where
  "BlockHeader_bytes bh =
     (case pack_u32 (version bh) of Inl e \<Rightarrow> Inl e | Inr v \<Rightarrow>
      case pack_u32 (time bh) of Inl e \<Rightarrow> Inl e | Inr t \<Rightarrow>
      case pack_u32 (bits bh) of Inl e \<Rightarrow> Inl e | Inr bi \<Rightarrow>
      case pack_u32 (nonce bh) of Inl e \<Rightarrow> Inl e | Inr n \<Rightarrow>
        Inr (v @ prev_block_hash bh @ merkle_root_hash bh @ t @ bi @ n))"

definition BlockHeader_hash :: "(bytes \<Rightarrow> bytes) \<Rightarrow> BlockHeader \<Rightarrow> error + bytes" where
  "BlockHeader_hash dh bh = map_sum id dh (BlockHeader_bytes bh)"

section \<open>block.py: BlockBase\<close>

text \<open>
  An attribute that an object may not have (\<^verbatim>\<open>from_blockheader\<close> sets neither
  \<^verbatim>\<open>height\<close> nor \<^verbatim>\<open>target\<close>) is an optional field: reading it where it is \<open>None\<close>
  raises AttributeError. A method that mutates \<open>self\<close> returns the object as it is when
  the method returns or raises.
\<close>

record BlockBase =
  height :: "int option"
  block_header :: BlockHeader
  target :: "int option"

definition BlockBase_init ::
  "int \<Rightarrow> int \<Rightarrow> bytes \<Rightarrow> int \<Rightarrow> int \<Rightarrow> error + BlockBase" where
  "BlockBase_init h v p t bi =
     (case decode_compact_target bi of
        Inl e \<Rightarrow> Inl e
      | Inr tg \<Rightarrow>
          Inr \<lparr>height = Some h,
               block_header = \<lparr>version = v, prev_block_hash = p,
                 merkle_root_hash = replicate 32 0, time = t, bits = bi, nonce = 0\<rparr>,
               target = Some tg\<rparr>)"

definition compute_hash ::
  "(bytes \<Rightarrow> bytes) \<Rightarrow> 'a BlockBase_scheme \<Rightarrow> int \<Rightarrow> (error + bytes) \<times> 'a BlockBase_scheme" where
  "compute_hash dh self n =
     (let self' = self\<lparr>block_header := (block_header self)\<lparr>nonce := n\<rparr>\<rparr>
      in (BlockHeader_hash dh (block_header self'), self'))"

text \<open>\<^verbatim>\<open>int.from_bytes(b, 'big')\<close>.\<close>

definition int_from_bytes_big :: "bytes \<Rightarrow> int" where
  "int_from_bytes_big b = foldl (\<lambda>acc x. acc * 256 + uint x) 0 b"

definition check_valid_nonce ::
  "(bytes \<Rightarrow> bytes) \<Rightarrow> 'a BlockBase_scheme \<Rightarrow> int \<Rightarrow> (error + bool) \<times> 'a BlockBase_scheme" where
  "check_valid_nonce dh self n =
     (case compute_hash dh self n of
        (Inl e, self') \<Rightarrow> (Inl e, self')
      | (Inr hsh, self') \<Rightarrow>
          (let h = int_from_bytes_big (rev hsh) in
           case target self' of
             None \<Rightarrow> (Inl AttributeError, self')
           | Some tg \<Rightarrow> (Inr (h < tg), self')))"

section \<open>block.py: Block\<close>

text \<open>
  \<^verbatim>\<open>__init__\<close> stores the transaction list as \<^verbatim>\<open>self.txns\<close>, \<^verbatim>\<open>from_blockheader\<close>
  as \<^verbatim>\<open>self.transactions\<close>; every reader (\<^verbatim>\<open>compute_merkle_tree\<close>, the coinbase
  property, \<^verbatim>\<open>__bytes__\<close>) reads \<^verbatim>\<open>self.txns\<close>. Both attributes are fields.
\<close>

record Block = BlockBase +
  txns :: "Transaction list option"
  transactions :: "Transaction list option"
  merkle_tree :: "MerkleNode option"

text \<open>The inner loop of \<^verbatim>\<open>compute_merkle_tree\<close>, over \<^verbatim>\<open>range(0, len(level_nodes), 2)\<close>:
  \<^verbatim>\<open>level_nodes[i+1]\<close> raises IndexError on a level of odd length.\<close>

fun pair_nodes :: "(bytes \<Rightarrow> bytes) \<Rightarrow> MerkleNode list \<Rightarrow> error + MerkleNode list" where
  "pair_nodes dh [] = Inr []"
| "pair_nodes dh [left] = Inl IndexError"
| "pair_nodes dh (left # right # rest) =
     map_sum id ((#) (Node (dh (node_hash left @ node_hash right)) left right))
       (pair_nodes dh rest)"

text \<open>The \<^verbatim>\<open>while True\<close> loop; \<open>None\<close> is a loop that never ends.\<close>

partial_function (option) merkle_loop ::
  "(bytes \<Rightarrow> bytes) \<Rightarrow> MerkleNode list \<Rightarrow> (error + MerkleNode) option" where
  "merkle_loop dh level_nodes =
     (if length level_nodes = 1 then Some (Inr (level_nodes ! 0))
      else
        (case pair_nodes dh
                (if length level_nodes mod 2 \<noteq> 0 then level_nodes @ [last level_nodes]
                 else level_nodes) of
           Inl e \<Rightarrow> Some (Inl e)
         | Inr new_level \<Rightarrow> merkle_loop dh new_level))"

definition compute_merkle_tree :: "(bytes \<Rightarrow> bytes) \<Rightarrow> Block \<Rightarrow> (error + Block) option" where
  "compute_merkle_tree dh self =
     (case txns self of
        None \<Rightarrow> Some (Inl AttributeError)
      | Some ts \<Rightarrow>
          (case merkle_loop dh (map (\<lambda>t. Leaf (txn_hash t)) ts) of
             None \<Rightarrow> None
           | Some (Inl e) \<Rightarrow> Some (Inl e)
           | Some (Inr rt) \<Rightarrow> Some (Inr (self\<lparr>merkle_tree := Some rt\<rparr>))))"

definition invalidate :: "(bytes \<Rightarrow> bytes) \<Rightarrow> Block \<Rightarrow> (error + Block) option" where
  "invalidate dh self =
     (case compute_merkle_tree dh self of
        None \<Rightarrow> None
      | Some (Inl e) \<Rightarrow> Some (Inl e)
      | Some (Inr self') \<Rightarrow>
          (case merkle_tree self' of
             None \<Rightarrow> Some (Inl AttributeError)
           | Some rt \<Rightarrow>
               Some (Inr (self'\<lparr>block_header :=
                            (block_header self')\<lparr>merkle_root_hash := node_hash rt\<rparr>\<rparr>))))"

definition Block_init ::
  "(bytes \<Rightarrow> bytes) \<Rightarrow> int \<Rightarrow> int \<Rightarrow> bytes \<Rightarrow> int \<Rightarrow> int \<Rightarrow> int \<Rightarrow> Transaction list
     \<Rightarrow> (error + Block) option" where
  "Block_init dh h v p t bi n txs =
     (case BlockBase_init h v p t bi of
        Inl e \<Rightarrow> Some (Inl e)
      | Inr base \<Rightarrow>
          invalidate dh
            \<lparr>height = height base, block_header = (block_header base)\<lparr>nonce := n\<rparr>,
             target = target base,
             txns = Some txs, transactions = None, merkle_tree = None\<rparr>)"

definition Block_from_blockheader ::
  "(bytes \<Rightarrow> bytes) \<Rightarrow> BlockHeader \<Rightarrow> Transaction list \<Rightarrow> (error + Block) option" where
  "Block_from_blockheader dh bh txs =
     invalidate dh
       \<lparr>height = None, block_header = bh, target = None,
        txns = None, transactions = Some txs, merkle_tree = None\<rparr>"

text \<open>The loop of \<^verbatim>\<open>Block.from_bytes\<close> over \<^verbatim>\<open>range(num_txns)\<close>.\<close>

fun parse_txns ::
  "(bytes \<Rightarrow> error + Transaction \<times> bytes) \<Rightarrow> nat \<Rightarrow> bytes \<Rightarrow> error + Transaction list \<times> bytes" where
  "parse_txns tfb 0 b = Inr ([], b)"
| "parse_txns tfb (Suc k) b =
     (case tfb b of
        Inl e \<Rightarrow> Inl e
      | Inr (t, b') \<Rightarrow> map_sum id (\<lambda>(ts, r). (t # ts, r)) (parse_txns tfb k b'))"

definition Block_from_bytes ::
  "(bytes \<Rightarrow> error + Transaction \<times> bytes) \<Rightarrow> (bytes \<Rightarrow> bytes) \<Rightarrow> bytes
     \<Rightarrow> (error + Block \<times> bytes) option" where
  "Block_from_bytes tfb dh b =
     (case BlockHeader_from_bytes b of
        Inl e \<Rightarrow> Some (Inl e)
      | Inr (bh, b1) \<Rightarrow>
          (case unpack_compact_int b1 of
             Inl e \<Rightarrow> Some (Inl e)
           | Inr None \<Rightarrow> Some (Inl TypeError)
           | Inr (Some (num_txns, b2)) \<Rightarrow>
               (case parse_txns tfb (nat num_txns) b2 of
                  Inl e \<Rightarrow> Some (Inl e)
                | Inr (txs, b3) \<Rightarrow>
                    (case Block_from_blockheader dh bh txs of
                       None \<Rightarrow> None
                     | Some (Inl e) \<Rightarrow> Some (Inl e)
                     | Some (Inr blk) \<Rightarrow> Some (Inr (blk, b3))))))"

definition Block_bytes :: "Block \<Rightarrow> error + bytes" where
  "Block_bytes self =
     (case BlockHeader_bytes (block_header self) of
        Inl e \<Rightarrow> Inl e
      | Inr hb \<Rightarrow>
          (case txns self of
             None \<Rightarrow> Inl AttributeError
           | Some ts \<Rightarrow>
               (case pack_compact_int (int (length ts)) of
                  Inl e \<Rightarrow> Inl e
                | Inr c \<Rightarrow> Inr (hb @ c @ concat (map txn_bytes ts)))))"

text \<open>
  \<^verbatim>\<open>invalidate_coinbase\<close> walks down the left edge. At the leaf it reads
  \<^verbatim>\<open>self.coinbase_tranaction\<close>, an attribute no Block has (the property is
  \<^verbatim>\<open>coinbase_transaction\<close>): AttributeError. Above the leaf, once the recursive call
  returns, it assigns \<^verbatim>\<open>merkle_node.merkle_hash\<close>, an attribute of a namedtuple:
  AttributeError again. No line of it that changes \<open>self\<close> is ever reached, so on
  \<open>Inl\<close> the object is as it was. The second function is the call with the default
  argument, \<^verbatim>\<open>merkle_node = self.merkle_tree\<close>.
\<close>

fun invalidate_coinbase_node :: "(bytes \<Rightarrow> bytes) \<Rightarrow> Block \<Rightarrow> MerkleNode \<Rightarrow> error + Block" where
  "invalidate_coinbase_node dh self (Leaf h) = Inl AttributeError"
| "invalidate_coinbase_node dh self (Node h left right) =
     (case invalidate_coinbase_node dh self left of
        Inl e \<Rightarrow> Inl e
      | Inr self' \<Rightarrow> Inl AttributeError)"

definition invalidate_coinbase :: "(bytes \<Rightarrow> bytes) \<Rightarrow> Block \<Rightarrow> error + Block" where
  "invalidate_coinbase dh self =
     (case merkle_tree self of
        None \<Rightarrow> Inl AttributeError
      | Some rt \<Rightarrow> invalidate_coinbase_node dh self rt)"

text \<open>The setter of \<^verbatim>\<open>Block.coinbase_transaction\<close>: the exception raised, if any, and
  the block as the setter leaves it.\<close>

definition Block_set_coinbase_transaction ::
  "(bytes \<Rightarrow> bytes) \<Rightarrow> Block \<Rightarrow> Transaction \<Rightarrow> error option \<times> Block" where
  "Block_set_coinbase_transaction dh self cb =
     (if num_inputs cb \<noteq> 1 then (Some ValueError, self)
      else if \<not> isinstance_CoinbaseInput (inputs cb ! 0) then (Some TypeError, self)
      else
        (case txns self of
           None \<Rightarrow> (Some AttributeError, self)
         | Some ts \<Rightarrow>
             if ts = [] then (Some IndexError, self)
             else
               (let self' = self\<lparr>txns := Some (ts[0 := cb])\<rparr> in
                case invalidate_coinbase dh self' of
                  Inl e \<Rightarrow> (Some e, self')
                | Inr self'' \<Rightarrow> (None, self''))))"

section \<open>block.py: CompactBlock\<close>

record CompactBlock = BlockBase +
  merkle_edge :: "bytes list"
  cb_txn :: "Transaction option"
  midstate :: "bytes option"

definition complete_merkle_edge :: "(bytes \<Rightarrow> bytes) \<Rightarrow> CompactBlock \<Rightarrow> CompactBlock" where
  "complete_merkle_edge dh self =
     (case cb_txn self of
        None \<Rightarrow> self
      | Some t \<Rightarrow>
          self\<lparr>block_header := (block_header self)
            \<lparr>merkle_root_hash := foldl (\<lambda>cur_hash e. dh (cur_hash @ e)) (txn_hash t) (merkle_edge self)\<rparr>\<rparr>)"

definition compute_midstate ::
  "(bytes \<Rightarrow> int list) \<Rightarrow> CompactBlock \<Rightarrow> error option \<times> CompactBlock" where
  "compute_midstate sha self =
     (case BlockHeader_bytes (block_header self) of
        Inl e \<Rightarrow> (Some e, self)
      | Inr hb \<Rightarrow>
          (case struct_pack_8I (sha (take 64 hb)) of
             Inl e \<Rightarrow> (Some e, self)
           | Inr m \<Rightarrow> (None, self\<lparr>midstate := Some m\<rparr>)))"

text \<open>The setter of \<^verbatim>\<open>CompactBlock.coinbase_transaction\<close>; the value assigned may be
  Python's \<open>None\<close>.\<close>

definition CompactBlock_set_coinbase_transaction ::
  "(bytes \<Rightarrow> bytes) \<Rightarrow> (bytes \<Rightarrow> int list) \<Rightarrow> CompactBlock \<Rightarrow> Transaction option
     \<Rightarrow> error option \<times> CompactBlock" where
  "CompactBlock_set_coinbase_transaction dh sha self cb =
     compute_midstate sha (complete_merkle_edge dh (self\<lparr>cb_txn := cb\<rparr>))"

definition CompactBlock_init ::
  "(bytes \<Rightarrow> bytes) \<Rightarrow> (bytes \<Rightarrow> int list) \<Rightarrow> int \<Rightarrow> int \<Rightarrow> bytes \<Rightarrow> int \<Rightarrow> int \<Rightarrow> bytes list
     \<Rightarrow> Transaction option \<Rightarrow> error + CompactBlock" where
  "CompactBlock_init dh sha h v p t bi edge cb =
     (case BlockBase_init h v p t bi of
        Inl e \<Rightarrow> Inl e
      | Inr base \<Rightarrow>
          (let self = \<lparr>height = height base,
                       block_header = \<lparr>version = v, prev_block_hash = p,
                         merkle_root_hash = replicate 32 0, time = t, bits = bi, nonce = 0\<rparr>,
                       target = target base,
                       merkle_edge = edge, cb_txn = None, midstate = None\<rparr>
           in case cb of
                None \<Rightarrow> Inr self
              | Some t \<Rightarrow>
                  (case CompactBlock_set_coinbase_transaction dh sha self (Some t) of
                     (Some e, self') \<Rightarrow> Inl e
                   | (None, self') \<Rightarrow> Inr self')))"

section \<open>The merkle root as the specification words it\<close>

text \<open>
  The specification's construction, on the hashes alone: if exactly one node remains it is
  the root; otherwise a level of odd length gets its last hash appended once more, and
  consecutive pairs are replaced by the double hash of their concatenation. The
  specification does not say what the root of no transactions is; the function returns
  the empty byte string there.
\<close>

fun spec_pair_hashes :: "(bytes \<Rightarrow> bytes) \<Rightarrow> bytes list \<Rightarrow> bytes list" where
  "spec_pair_hashes dh (l # r # rest) = dh (l @ r) # spec_pair_hashes dh rest"
| "spec_pair_hashes dh _ = []"

lemma length_spec_pair_hashes: "length (spec_pair_hashes dh hs) = length hs div 2"
  by (induction dh hs rule: spec_pair_hashes.induct) simp_all

lemma half_padded_less: "2 \<le> (n::nat) \<Longrightarrow> (if odd n then n + 1 else n) div 2 < n"
  by presburger

function spec_merkle_root :: "(bytes \<Rightarrow> bytes) \<Rightarrow> bytes list \<Rightarrow> bytes" where
  "spec_merkle_root dh hs =
     (if hs = [] then []
      else if length hs = 1 then hd hs
      else spec_merkle_root dh
             (spec_pair_hashes dh (if odd (length hs) then hs @ [last hs] else hs)))"
  by pat_completeness auto
termination
proof (relation "measure (\<lambda>(dh, hs). length hs)")
  show "wf (measure (\<lambda>(dh, hs). length hs))" by simp
next
  fix dh :: "bytes \<Rightarrow> bytes" and hs :: "bytes list"
  assume "hs \<noteq> []" "length hs \<noteq> 1"
  then have "length hs \<noteq> 0 \<and> length hs \<noteq> 1" by simp
  then have "2 \<le> length hs" by arith
  then show "((dh, spec_pair_hashes dh (if odd (length hs) then hs @ [last hs] else hs)), (dh, hs))
      \<in> measure (\<lambda>(dh, hs). length hs)"
    using half_padded_less [of "length hs"] by (auto simp: length_spec_pair_hashes)
qed

declare spec_merkle_root.simps [simp del]

section \<open>Invariants and concrete instances\<close>

text \<open>What \<^verbatim>\<open>BlockBase.__init__\<close> establishes and no method changes: \<^verbatim>\<open>self.target\<close> is
  the target decoded from the header's \<^verbatim>\<open>bits\<close>.\<close>

definition target_decoded :: "'a BlockBase_scheme \<Rightarrow> bool" where
  "target_decoded self =
     (case decode_compact_target (bits (block_header self)) of
        Inl e \<Rightarrow> False
      | Inr tg \<Rightarrow> target self = Some tg)"

text \<open>The header fields that no method writes are 32-bit values, so that
  \<^verbatim>\<open>struct.pack('<I', ...)\<close> accepts them.\<close>

definition u32_header :: "BlockHeader \<Rightarrow> bool" where
  "u32_header bh = (is_u32 (version bh) \<and> is_u32 (time bh) \<and> is_u32 (bits bh))"

text \<open>
  Concrete inputs on which the theorems below are evaluated: a stand-in for the double
  hash (a 32-byte digest that depends on its input's length) and for the midstate, three
  transactions, the header of difficulty 1, a CompactBlock built with no coinbase
  transaction, a Block of three transactions that no constructor
  has completed, and the Block that the constructor builds from one transaction.
\<close>

definition stub_dhash :: "bytes \<Rightarrow> bytes" where
  "stub_dhash b = word_of_nat (length b) # replicate 31 0"

definition stub_sha :: "bytes \<Rightarrow> int list" where
  "stub_sha b = replicate 8 (int (length b) mod 2 ^ 32)"

definition example_txn :: "8 word \<Rightarrow> txn_input list \<Rightarrow> Transaction" where
  "example_txn k ins = \<lparr>txn_hash = replicate 32 k, inputs = ins, txn_bytes = [k]\<rparr>"

definition example_header :: BlockHeader where
  "example_header =
     \<lparr>version = 1, prev_block_hash = replicate 32 0, merkle_root_hash = replicate 32 0,
      time = 0, bits = 0x1d00ffff, nonce = 0\<rparr>"

definition example_compact_block :: CompactBlock where
  "example_compact_block =
     \<lparr>height = Some 0, block_header = example_header, target = Some (0xffff * 256 ^ 26),
      merkle_edge = [], cb_txn = None, midstate = None\<rparr>"

definition example_block :: Block where
  "example_block =
     \<lparr>height = Some 0, block_header = example_header, target = Some (0xffff * 256 ^ 26),
      txns = Some [example_txn 1 [CoinbaseInput], example_txn 2 [TransactionInput],
                   example_txn 3 [TransactionInput]],
      transactions = None, merkle_tree = None\<rparr>"

definition example_single_block :: Block where
  "example_single_block =
     \<lparr>height = Some 0, block_header = example_header\<lparr>merkle_root_hash := replicate 32 1\<rparr>,
      target = Some (0xffff * 256 ^ 26),
      txns = Some [example_txn 1 [CoinbaseInput]],
      transactions = None, merkle_tree = Some (Leaf (replicate 32 1))\<rparr>"

section \<open>Theorems on utils.py\<close>

lemma and_low24: "(x::int) AND 0xffffff = x mod 2 ^ 24"
proof -
  have m: "(0xffffff::int) = mask 24" by (simp add: mask_eq_exp_minus_1)
  have "x AND 0xffffff = take_bit 24 x" unfolding m by (rule take_bit_eq_mask [symmetric])
  then show ?thesis by (simp only: take_bit_eq_mod)
qed

lemma int_from_bytes_big_rev: "int_from_bytes_big (rev b) = le_int b"
  by (induction b) (simp_all add: int_from_bytes_big_def)

lemma int_from_bytes_big_eq: "int_from_bytes_big b = le_int (rev b)"
  using int_from_bytes_big_rev [of "rev b"] by simp

lemma le_int_bound: "0 \<le> le_int b \<and> le_int b < 256 ^ length b"
proof (induction b)
  case Nil
  then show ?case by simp
next
  case (Cons x xs)
  have "uint x < 256" using uint_bounded [of x] by simp
  moreover have "0 \<le> uint x" by simp
  ultimately show ?case using Cons by auto
qed

lemma le_int_replicate_zero: "le_int (replicate k 0) = 0"
  by (induction k) simp_all

lemma length_le_bytes: "length (le_bytes n i) = n"
  by (induction n arbitrary: i) simp_all

lemma pack_u32_ok: "is_u32 x \<Longrightarrow> pack_u32 x = Inr (le_bytes 4 x)"
  by (simp add: pack_u32_def struct_pack_le_def is_u32_def)

lemma decode_compact_target_cases:
  "(bi div 2 ^ 24 < 3 \<longrightarrow> decode_compact_target bi = Inl ValueError) \<and>
   (3 \<le> bi div 2 ^ 24 \<longrightarrow>
      decode_compact_target bi = Inr ((bi mod 2 ^ 24) * 256 ^ nat (bi div 2 ^ 24 - 3)))"
proof -
  have pow: "(2::int) ^ (8 * n) = 256 ^ n" for n
    by (simp add: power_mult)
  have "3 \<le> bi div 2 ^ 24 \<Longrightarrow>
      nat (8 * (bi div 2 ^ 24 - 3)) = 8 * nat (bi div 2 ^ 24 - 3)"
    by (simp add: nat_mult_distrib)
  then show ?thesis
    by (auto simp: decode_compact_target_def int_lshift_def Let_def drop_bit_eq_div and_low24 pow)
qed

lemma decode_max_bits: "decode_compact_target 0xffffffff = Inr (0xffffff * 256 ^ 252)"
  using decode_compact_target_cases [of "0xffffffff"] by simp

lemma decode_example_bits: "decode_compact_target 0x1d00ffff = Inr (0xffff * 256 ^ 26)"
  using decode_compact_target_cases [of "0x1d00ffff"] by simp

text \<open>
  Claim C3. The code divides the initial subsidy by \<open>era + 1\<close>, not by \<open>2 ^ era\<close>: the two
  agree in eras 0 and 1 (heights 0, 209999 and 210000 give 5000000000, 5000000000 and
  2500000000) and differ from era 2 on. At height 420000 the code returns
  5000000000 / 3, where the halving schedule that its docstring cites gives 1250000000.
\<close>

theorem compute_reward_era2:
  "compute_reward 0 = Inr (PyFloat 5000000000) \<and>
   compute_reward 209999 = Inr (PyFloat 5000000000) \<and>
   compute_reward 210000 = Inr (PyFloat 2500000000) \<and>
   compute_reward 420000 = Inr (PyFloat (5000000000 / 3)) \<and>
   compute_reward 420000 \<noteq> Inr (PyFloat (5000000000 / 2 ^ 2))"
  by (simp add: compute_reward_def)

text \<open>
  Claim C4. Under Python 3 \<^verbatim>\<open>shift = (len(hex_target) + 1) / 2\<close> is a float, so the
  next line shifts an integer by a float and raises TypeError: \<^verbatim>\<open>encode_compact_target\<close>
  returns for no target at all, and the round trip through it has no value.
\<close>

theorem encode_compact_target_raises:
  "encode_compact_target tg = Inl TypeError"
  by (simp add: encode_compact_target_def Let_def)

text \<open>
  Claim C7. With exponent \<open>bits div 2 ^ 24\<close> (the high byte of a 32-bit value) and mantissa
  \<open>bits mod 2 ^ 24\<close>: an exponent below 3 makes \<^verbatim>\<open>1 << (8 * (shift - 3))\<close> a shift by a
  negative count, which Python signals as ValueError and no target is returned; from
  exponent 3 on the result is \<open>mantissa * 256 ^ (exponent - 3)\<close>.
\<close>

theorem decode_compact_target_exponent:
  "(bi div 2 ^ 24 < 3 \<longrightarrow> decode_compact_target bi = Inl ValueError) \<and>
   (3 \<le> bi div 2 ^ 24 \<longrightarrow>
      decode_compact_target bi = Inr ((bi mod 2 ^ 24) * 256 ^ nat (bi div 2 ^ 24 - 3)))"
  by (rule decode_compact_target_cases)

theorem decode_compact_target_exponent_witness:
  "(0x02000001::int) div 2 ^ 24 < 3 \<and> decode_compact_target 0x02000001 = Inl ValueError \<and>
   3 \<le> (0x1d00ffff::int) div 2 ^ 24 \<and>
   decode_compact_target 0x1d00ffff = Inr (0xffff * 256 ^ 26)"
  using decode_compact_target_exponent [of "0x02000001"]
    decode_compact_target_exponent [of "0x1d00ffff"]
  by simp

section \<open>Theorems on block.py: the merkle tree\<close>

lemma merkle_loop_single: "merkle_loop dh [n] = Some (Inr n)"
  by (subst merkle_loop.simps) simp

text \<open>On no transactions the loop maps the empty level to itself and never ends.\<close>

lemma merkle_loop_Some_nonempty:
  assumes "merkle_loop dh ns = Some y"
  shows "ns \<noteq> []"
proof (rule merkle_loop.raw_induct [where P = "\<lambda>dh ns y. ns \<noteq> []", OF _ assms])
  fix loop :: "(bytes \<Rightarrow> bytes) \<Rightarrow> MerkleNode list \<Rightarrow> (error + MerkleNode) option"
    and dh' ns' y'
  assume ih: "\<And>d l z. loop d l = Some z \<Longrightarrow> l \<noteq> []"
    and body: "(if length ns' = 1 then Some (Inr (ns' ! 0))
      else case pair_nodes dh'
                 (if length ns' mod 2 \<noteq> 0 then ns' @ [last ns'] else ns') of
           Inl e \<Rightarrow> Some (Inl e)
           | Inr new_level \<Rightarrow> loop dh' new_level) = Some y'"
  show "ns' \<noteq> []"
  proof
    assume "ns' = []"
    with body have "loop dh' [] = Some y'" by simp
    with ih show False by blast
  qed
qed

lemma merkle_loop_empty: "merkle_loop dh [] = None"
  using merkle_loop_Some_nonempty [of dh "[]"] by (cases "merkle_loop dh []") auto

lemma pair_nodes_even:
  "even (length ns) \<Longrightarrow>
   \<exists>ps. pair_nodes dh ns = Inr ps \<and> map node_hash ps = spec_pair_hashes dh (map node_hash ns)"
proof (induction dh ns rule: pair_nodes.induct)
  case (1 dh)
  then show ?case by simp
next
  case (2 dh left)
  then show ?case by simp
next
  case (3 dh left right rest)
  then obtain ps where "pair_nodes dh rest = Inr ps"
      "map node_hash ps = spec_pair_hashes dh (map node_hash rest)"
    by auto
  then show ?case by simp
qed

lemma merkle_loop_refines:
  "ns \<noteq> [] \<Longrightarrow>
   \<exists>rt. merkle_loop dh ns = Some (Inr rt) \<and> node_hash rt = spec_merkle_root dh (map node_hash ns)"
proof (induction "length ns" arbitrary: ns rule: less_induct)
  case less
  show ?case
  proof (cases "length ns = 1")
    case True
    then obtain n where ns: "ns = [n]" by (cases ns) auto
    show ?thesis
      by (simp add: ns merkle_loop_single spec_merkle_root.simps [of dh "[node_hash n]"])
  next
    case False
    with less.prems have "length ns \<noteq> 0 \<and> length ns \<noteq> 1" by simp
    then have len: "2 \<le> length ns" by arith
    define padded where "padded = (if length ns mod 2 \<noteq> 0 then ns @ [last ns] else ns)"
    have ev: "even (length padded)" by (auto simp: padded_def odd_iff_mod_2_eq_one)
    from pair_nodes_even [OF ev, of dh] obtain ps where
      ps: "pair_nodes dh padded = Inr ps"
        "map node_hash ps = spec_pair_hashes dh (map node_hash padded)" by blast
    have "length ps = length padded div 2"
      using arg_cong [OF ps(2), of length] by (simp add: length_spec_pair_hashes)
    with len have lps: "length ps < length ns" "ps \<noteq> []"
      by (auto simp: padded_def split: if_splits)
    from less.hyps [OF lps(1) lps(2)] obtain rt where
      rt: "merkle_loop dh ps = Some (Inr rt)"
        "node_hash rt = spec_merkle_root dh (map node_hash ps)" by blast
    have loop: "merkle_loop dh ns = merkle_loop dh ps"
      using False ps(1) by (subst merkle_loop.simps) (simp add: padded_def)
    have hp: "map node_hash padded =
        (if odd (length (map node_hash ns)) then map node_hash ns @ [last (map node_hash ns)]
         else map node_hash ns)"
      using less.prems by (auto simp: padded_def last_map odd_iff_mod_2_eq_one)
    have "spec_merkle_root dh (map node_hash ns) = spec_merkle_root dh (map node_hash ps)"
      using False less.prems
      by (subst spec_merkle_root.simps) (simp add: ps(2) hp)
    with rt loop show ?thesis by simp
  qed
qed

lemma spec_merkle_root_three:
  "spec_merkle_root dh [h0, h1, h2] = dh (dh (h0 @ h1) @ dh (h2 @ h2))"
  by (simp add: spec_merkle_root.simps)

text \<open>
  Claim C6. On a block with at least one transaction \<^verbatim>\<open>compute_merkle_tree\<close> returns,
  and the hash of the tree it stores is the root of the specification's construction over
  the transaction hashes in order (odd levels padded with their last hash, consecutive
  pairs double-hashed). For one transaction the tree is the leaf of that transaction's
  hash, unchanged; for three, its hash is \<open>dh (dh (h0 @ h1) @ dh (h2 @ h2))\<close>.
\<close>

theorem compute_merkle_tree_bottom_up:
  assumes "txns self = Some ts" and "ts \<noteq> []"
  shows "\<exists>rt. compute_merkle_tree dh self = Some (Inr (self\<lparr>merkle_tree := Some rt\<rparr>)) \<and>
      node_hash rt = spec_merkle_root dh (map txn_hash ts) \<and>
      (\<forall>t. ts = [t] \<longrightarrow> rt = Leaf (txn_hash t)) \<and>
      (\<forall>t0 t1 t2. ts = [t0, t1, t2] \<longrightarrow>
         node_hash rt =
           dh (dh (txn_hash t0 @ txn_hash t1) @ dh (txn_hash t2 @ txn_hash t2)))"
proof -
  let ?leaves = "map (\<lambda>t. Leaf (txn_hash t)) ts"
  have ne: "?leaves \<noteq> []" using assms(2) by simp
  from merkle_loop_refines [OF ne, of dh] obtain rt where
    rt: "merkle_loop dh ?leaves = Some (Inr rt)"
      "node_hash rt = spec_merkle_root dh (map node_hash ?leaves)" by blast
  have hs: "map node_hash ?leaves = map txn_hash ts" by simp
  have c: "compute_merkle_tree dh self = Some (Inr (self\<lparr>merkle_tree := Some rt\<rparr>))"
    using assms(1) rt(1) by (simp add: compute_merkle_tree_def)
  have one: "\<forall>t. ts = [t] \<longrightarrow> rt = Leaf (txn_hash t)"
    using rt(1) by (auto simp: merkle_loop_single)
  have three: "\<forall>t0 t1 t2. ts = [t0, t1, t2] \<longrightarrow>
      node_hash rt = dh (dh (txn_hash t0 @ txn_hash t1) @ dh (txn_hash t2 @ txn_hash t2))"
    using rt(2) by (auto simp: spec_merkle_root_three)
  from c rt(2) one three show ?thesis unfolding hs by blast
qed

theorem compute_merkle_tree_bottom_up_witness:
  "txns example_block =
     Some [example_txn 1 [CoinbaseInput], example_txn 2 [TransactionInput],
           example_txn 3 [TransactionInput]] \<and>
   (\<exists>rt. compute_merkle_tree stub_dhash example_block =
            Some (Inr (example_block\<lparr>merkle_tree := Some rt\<rparr>)) \<and>
          node_hash rt = 64 # replicate 31 0)"
  using compute_merkle_tree_bottom_up
    [of example_block "[example_txn 1 [CoinbaseInput], example_txn 2 [TransactionInput],
           example_txn 3 [TransactionInput]]" stub_dhash]
  by (auto simp: example_block_def example_txn_def stub_dhash_def)

section \<open>Theorems on block.py: Block\<close>

lemma invalidate_coinbase_node_raises:
  "invalidate_coinbase_node dh self n = Inl AttributeError"
  by (induction n) simp_all

lemma invalidate_coinbase_raises: "invalidate_coinbase dh self = Inl AttributeError"
  by (simp add: invalidate_coinbase_def invalidate_coinbase_node_raises split: option.splits)

lemma Block_from_blockheader_raises:
  "Block_from_blockheader dh bh txs = Some (Inl AttributeError)"
  by (simp add: Block_from_blockheader_def invalidate_def compute_merkle_tree_def)

text \<open>
  Claim C1. The incremental path never yields a root. \<^verbatim>\<open>invalidate_coinbase\<close> raises
  AttributeError on every block, and the setter, given a valid coinbase transaction for a
  block that has transactions, has by then replaced \<^verbatim>\<open>txns[0]\<close>: the block is left with
  the new coinbase, the old tree and the old merkle root in its header.
\<close>

theorem incremental_coinbase_update_raises:
  "invalidate_coinbase dh self = Inl AttributeError \<and>
   (num_inputs cb = 1 \<and> isinstance_CoinbaseInput (inputs cb ! 0) \<and> txns self = Some (t0 # rest) \<longrightarrow>
      Block_set_coinbase_transaction dh self cb =
        (Some AttributeError, self\<lparr>txns := Some (cb # rest)\<rparr>))"
  by (simp add: Block_set_coinbase_transaction_def invalidate_coinbase_raises)

theorem incremental_coinbase_update_raises_witness:
  "num_inputs (example_txn 9 [CoinbaseInput]) = 1 \<and>
   isinstance_CoinbaseInput (inputs (example_txn 9 [CoinbaseInput]) ! 0) \<and>
   Block_set_coinbase_transaction stub_dhash example_block (example_txn 9 [CoinbaseInput]) =
     (Some AttributeError,
      example_block\<lparr>txns := Some [example_txn 9 [CoinbaseInput],
        example_txn 2 [TransactionInput], example_txn 3 [TransactionInput]]\<rparr>) \<and>
   merkle_root_hash (block_header example_block) = replicate 32 0"
  using incremental_coinbase_update_raises
    [of stub_dhash example_block "example_txn 9 [CoinbaseInput]" "example_txn 1 [CoinbaseInput]"
        "[example_txn 2 [TransactionInput], example_txn 3 [TransactionInput]]"]
  by (simp add: example_block_def example_txn_def example_header_def num_inputs_def
      isinstance_CoinbaseInput_def)

text \<open>
  Claim C2. \<^verbatim>\<open>from_blockheader\<close> stores the transactions as \<^verbatim>\<open>self.transactions\<close> and
  then calls \<^verbatim>\<open>invalidate\<close>, whose \<^verbatim>\<open>compute_merkle_tree\<close> reads \<^verbatim>\<open>self.txns\<close>:
  AttributeError, whatever the header and the transactions. So \<^verbatim>\<open>Block.from_bytes\<close>
  ends in an exception on every byte string and there is no block to serialize again.
\<close>

theorem Block_from_bytes_raises:
  "Block_from_blockheader dh bh txs = Some (Inl AttributeError) \<and>
   (\<exists>e. Block_from_bytes tfb dh b = Some (Inl e))"
  by (auto simp: Block_from_bytes_def Block_from_blockheader_raises
      split: sum.splits option.splits prod.splits)

text \<open>
  Claim C8. A transaction whose input count is not one is refused with ValueError, one
  whose only input is not a CoinbaseInput with TypeError (the two exceptions by which the
  code signals an invalid coinbase); both are raised before anything is assigned, and the
  block, with its transactions, merkle tree and header, is the block as it was.
\<close>

theorem Block_set_coinbase_invalid:
  "(num_inputs cb \<noteq> 1 \<longrightarrow>
      Block_set_coinbase_transaction dh self cb = (Some ValueError, self)) \<and>
   (num_inputs cb = 1 \<and> \<not> isinstance_CoinbaseInput (inputs cb ! 0) \<longrightarrow>
      Block_set_coinbase_transaction dh self cb = (Some TypeError, self))"
  by (simp add: Block_set_coinbase_transaction_def)

theorem Block_set_coinbase_invalid_witness:
  "num_inputs (example_txn 9 [CoinbaseInput, CoinbaseInput]) \<noteq> 1 \<and>
   Block_set_coinbase_transaction stub_dhash example_block
       (example_txn 9 [CoinbaseInput, CoinbaseInput]) = (Some ValueError, example_block) \<and>
   num_inputs (example_txn 9 [TransactionInput]) = 1 \<and>
   \<not> isinstance_CoinbaseInput (inputs (example_txn 9 [TransactionInput]) ! 0) \<and>
   Block_set_coinbase_transaction stub_dhash example_block
       (example_txn 9 [TransactionInput]) = (Some TypeError, example_block)"
  using Block_set_coinbase_invalid
      [of "example_txn 9 [CoinbaseInput, CoinbaseInput]" stub_dhash example_block]
    Block_set_coinbase_invalid
      [of "example_txn 9 [TransactionInput]" stub_dhash example_block]
  by (simp add: example_txn_def num_inputs_def isinstance_CoinbaseInput_def)

section \<open>Theorems on block.py: proof of work\<close>

lemma BlockHeader_bytes_u32:
  "is_u32 (version bh) \<Longrightarrow> is_u32 (time bh) \<Longrightarrow> is_u32 (bits bh) \<Longrightarrow> is_u32 (nonce bh) \<Longrightarrow>
   BlockHeader_bytes bh =
     Inr (le_bytes 4 (version bh) @ prev_block_hash bh @ merkle_root_hash bh @
          le_bytes 4 (time bh) @ le_bytes 4 (bits bh) @ le_bytes 4 (nonce bh))"
  by (simp add: BlockHeader_bytes_def pack_u32_ok)

lemma BlockBase_init_decoded:
  "BlockBase_init h v p t bi = Inr base \<Longrightarrow>
   target_decoded base \<and> version (block_header base) = v \<and> time (block_header base) = t \<and>
   bits (block_header base) = bi"
  by (auto simp: BlockBase_init_def target_decoded_def split: sum.splits)

lemma Block_init_decoded:
  "Block_init dh h v p t bi n0 txs = Some (Inr blk) \<Longrightarrow>
   target_decoded blk \<and> version (block_header blk) = v \<and> time (block_header blk) = t \<and>
   bits (block_header blk) = bi"
  by (auto simp: Block_init_def invalidate_def compute_merkle_tree_def target_decoded_def
      dest!: BlockBase_init_decoded split: sum.splits option.splits)

lemma CompactBlock_init_decoded:
  "CompactBlock_init dh sha h v p t bi edge cb = Inr cblk \<Longrightarrow>
   target_decoded cblk \<and> version (block_header cblk) = v \<and> time (block_header cblk) = t \<and>
   bits (block_header cblk) = bi"
  by (auto simp: CompactBlock_init_def CompactBlock_set_coinbase_transaction_def
      complete_merkle_edge_def compute_midstate_def target_decoded_def Let_def
      dest!: BlockBase_init_decoded split: sum.splits option.splits prod.splits)

lemma check_valid_nonce_generic:
  assumes "target self = Some tg"
    and "BlockHeader_bytes ((block_header self)\<lparr>nonce := n\<rparr>) = Inr hb"
  shows "check_valid_nonce dh self n =
    (Inr (int_from_bytes_big (rev (dh hb)) < tg),
     self\<lparr>block_header := (block_header self)\<lparr>nonce := n\<rparr>\<rparr>)"
  using assms by (simp add: check_valid_nonce_def compute_hash_def BlockHeader_hash_def Let_def)

text \<open>
  Claim C5. Both constructors leave \<^verbatim>\<open>self.target\<close> equal to the target decoded from
  the header's bits. On every object of a subclass of BlockBase in that state whose header
  fields and nonce are 32-bit values, \<^verbatim>\<open>check_valid_nonce(nonce)\<close> raises nothing,
  leaves the nonce in the header, and returns whether the double hash of the header with
  that nonce, reversed and read as a big-endian integer, is below the decoded target:
  never with target 0, always with bits 0xffffffff (the largest target of a 32-bit bits
  value) and a 32-byte digest.
\<close>

theorem check_valid_nonce_below_target:
  fixes self :: "'a BlockBase_scheme" and blk :: Block and cblk :: CompactBlock
  shows
  "(Block_init dh h v p t bi n0 txs = Some (Inr blk) \<longrightarrow> target_decoded blk) \<and>
   (CompactBlock_init dh sha h' v' p' t' bi' edge cb = Inr cblk \<longrightarrow> target_decoded cblk) \<and>
   (target_decoded self \<and> u32_header (block_header self) \<and> is_u32 n \<longrightarrow>
     (\<exists>tg hb.
        decode_compact_target (bits (block_header self)) = Inr tg \<and>
        BlockHeader_bytes ((block_header self)\<lparr>nonce := n\<rparr>) = Inr hb \<and>
        check_valid_nonce dh self n =
          (Inr (int_from_bytes_big (rev (dh hb)) < tg),
           self\<lparr>block_header := (block_header self)\<lparr>nonce := n\<rparr>\<rparr>) \<and>
        (tg = 0 \<longrightarrow> fst (check_valid_nonce dh self n) = Inr False) \<and>
        (bits (block_header self) = 0xffffffff \<and> length (dh hb) = 32 \<longrightarrow>
           fst (check_valid_nonce dh self n) = Inr True)))"
proof (intro conjI impI)
  assume "Block_init dh h v p t bi n0 txs = Some (Inr blk)"
  then show "target_decoded blk" by (simp add: Block_init_decoded)
next
  assume "CompactBlock_init dh sha h' v' p' t' bi' edge cb = Inr cblk"
  then show "target_decoded cblk" by (simp add: CompactBlock_init_decoded)
next
  assume a: "target_decoded self \<and> u32_header (block_header self) \<and> is_u32 n"
  then obtain tg where tg: "decode_compact_target (bits (block_header self)) = Inr tg"
      "target self = Some tg"
    by (auto simp: target_decoded_def split: sum.splits)
  from a obtain hb where hb: "BlockHeader_bytes ((block_header self)\<lparr>nonce := n\<rparr>) = Inr hb"
    by (simp add: u32_header_def BlockHeader_bytes_u32)
  note cv = check_valid_nonce_generic [OF tg(2) hb, of dh]
  have nonneg: "0 \<le> int_from_bytes_big (rev (dh hb))"
    by (simp add: int_from_bytes_big_rev le_int_bound)
  have zero: "tg = 0 \<longrightarrow> fst (check_valid_nonce dh self n) = Inr False"
    using cv nonneg by simp
  have top: "bits (block_header self) = 0xffffffff \<and> length (dh hb) = 32 \<longrightarrow>
      fst (check_valid_nonce dh self n) = Inr True"
  proof
    assume b: "bits (block_header self) = 0xffffffff \<and> length (dh hb) = 32"
    with tg(1) have "tg = 0xffffff * 256 ^ 252" by (simp add: decode_max_bits)
    moreover have "int_from_bytes_big (rev (dh hb)) < 256 ^ 32"
      using le_int_bound [of "dh hb"] b by (simp add: int_from_bytes_big_rev)
    moreover have "(256::int) ^ 32 \<le> 0xffffff * 256 ^ 252" by simp
    ultimately have "int_from_bytes_big (rev (dh hb)) < tg" by linarith
    with cv show "fst (check_valid_nonce dh self n) = Inr True" by simp
  qed
  from tg(1) hb cv zero top
  show "\<exists>tg hb.
        decode_compact_target (bits (block_header self)) = Inr tg \<and>
        BlockHeader_bytes ((block_header self)\<lparr>nonce := n\<rparr>) = Inr hb \<and>
        check_valid_nonce dh self n =
          (Inr (int_from_bytes_big (rev (dh hb)) < tg),
           self\<lparr>block_header := (block_header self)\<lparr>nonce := n\<rparr>\<rparr>) \<and>
        (tg = 0 \<longrightarrow> fst (check_valid_nonce dh self n) = Inr False) \<and>
        (bits (block_header self) = 0xffffffff \<and> length (dh hb) = 32 \<longrightarrow>
           fst (check_valid_nonce dh self n) = Inr True)"
    by blast
qed

lemma example_compact_block_init:
  "CompactBlock_init dh sha 0 1 (replicate 32 0) 0 0x1d00ffff [] None = Inr example_compact_block"
  by (simp add: CompactBlock_init_def BlockBase_init_def decode_example_bits
      example_compact_block_def example_header_def)

lemma example_target_decoded: "target_decoded example_compact_block"
  by (simp add: target_decoded_def example_compact_block_def example_header_def decode_example_bits)

lemma example_u32_header: "u32_header example_header"
  by (simp add: u32_header_def example_header_def is_u32_def)

lemma example_check:
  "check_valid_nonce stub_dhash example_compact_block 7 =
     (Inr True, example_compact_block\<lparr>block_header := example_header\<lparr>nonce := 7\<rparr>\<rparr>)"
  by (simp add: check_valid_nonce_def compute_hash_def BlockHeader_hash_def Let_def
      BlockHeader_bytes_def pack_u32_def struct_pack_le_def length_le_bytes
      example_compact_block_def example_header_def stub_dhash_def
      int_from_bytes_big_eq le_int_replicate_zero)

lemma example_single_block_init:
  "Block_init dh 0 1 (replicate 32 0) 0 0x1d00ffff 0 [example_txn 1 [CoinbaseInput]]
     = Some (Inr example_single_block)"
  by (simp add: Block_init_def BlockBase_init_def decode_example_bits invalidate_def
      compute_merkle_tree_def merkle_loop_single example_single_block_def example_header_def
      example_txn_def)

theorem check_valid_nonce_below_target_witness:
  "Block_init stub_dhash 0 1 (replicate 32 0) 0 0x1d00ffff 0 [example_txn 1 [CoinbaseInput]]
     = Some (Inr example_single_block) \<and>
   target_decoded example_single_block \<and>
   CompactBlock_init stub_dhash stub_sha 0 1 (replicate 32 0) 0 0x1d00ffff [] None
     = Inr example_compact_block \<and>
   target_decoded example_compact_block \<and>
   u32_header (block_header example_compact_block) \<and> is_u32 7 \<and>
   check_valid_nonce stub_dhash example_compact_block 7 =
     (Inr True, example_compact_block\<lparr>block_header := example_header\<lparr>nonce := 7\<rparr>\<rparr>)"
proof -
  have b: "Block_init stub_dhash 0 1 (replicate 32 0) 0 0x1d00ffff 0
      [example_txn 1 [CoinbaseInput]] = Some (Inr example_single_block)"
    by (rule example_single_block_init)
  have c: "CompactBlock_init stub_dhash stub_sha 0 1 (replicate 32 0) 0 0x1d00ffff [] None
      = Inr example_compact_block"
    by (rule example_compact_block_init)
  have u: "u32_header (block_header example_compact_block)" "is_u32 7"
    by (simp_all add: example_compact_block_def example_u32_header is_u32_def)
  from check_valid_nonce_below_target
    [of stub_dhash 0 1 "replicate 32 0" 0 "0x1d00ffff" 0 "[example_txn 1 [CoinbaseInput]]"
        example_single_block
        stub_sha 0 1 "replicate 32 0" 0 "0x1d00ffff" "[]" None example_compact_block
        example_compact_block 7]
    b c u example_check
  show ?thesis by simp
qed

section \<open>Theorems on block.py: CompactBlock\<close>

lemma struct_pack_8I_ok:
  "length xs = 8 \<Longrightarrow> list_all is_u32 xs \<Longrightarrow> struct_pack_8I xs = Inr (concat (map (be_bytes 4) xs))"
  by (simp add: struct_pack_8I_def)

text \<open>
  Claim C10. On a CompactBlock whose header fields are 32-bit values, and with a
  \<^verbatim>\<open>mid_state\<close> of eight 32-bit words, the setter raises nothing for any transaction
  \<open>t\<close>, whatever its inputs: it stores \<open>t\<close>, sets the header's merkle root to the fold of
  \<open>dh (cur_hash @ e)\<close> over the merkle edge from \<open>t\<close>'s hash, and sets the midstate to
  the packed \<^verbatim>\<open>mid_state\<close> of the first 64 bytes of the header that carries that root.
\<close>

theorem CompactBlock_set_coinbase_unconditional:
  assumes "u32_header (block_header self)" and "is_u32 (nonce (block_header self))"
    and "\<And>x. length (sha x) = 8 \<and> list_all is_u32 (sha x)"
  shows "\<exists>hb.
      BlockHeader_bytes ((block_header self)
        \<lparr>merkle_root_hash := foldl (\<lambda>cur_hash e. dh (cur_hash @ e)) (txn_hash t) (merkle_edge self)\<rparr>)
        = Inr hb \<and>
      CompactBlock_set_coinbase_transaction dh sha self (Some t) =
        (None,
         self\<lparr>cb_txn := Some t,
              block_header := (block_header self)
                \<lparr>merkle_root_hash :=
                   foldl (\<lambda>cur_hash e. dh (cur_hash @ e)) (txn_hash t) (merkle_edge self)\<rparr>,
              midstate := Some (concat (map (be_bytes 4) (sha (take 64 hb))))\<rparr>)"
proof -
  let ?bh = "(block_header self)
        \<lparr>merkle_root_hash := foldl (\<lambda>cur_hash e. dh (cur_hash @ e)) (txn_hash t) (merkle_edge self)\<rparr>"
  from assms(1,2) obtain hb where hb: "BlockHeader_bytes ?bh = Inr hb"
    by (simp add: u32_header_def BlockHeader_bytes_u32)
  have pk: "struct_pack_8I (sha (take 64 hb)) = Inr (concat (map (be_bytes 4) (sha (take 64 hb))))"
    using assms(3) [of "take 64 hb"] by (simp add: struct_pack_8I_ok)
  have "CompactBlock_set_coinbase_transaction dh sha self (Some t) =
        (None,
         self\<lparr>cb_txn := Some t, block_header := ?bh,
              midstate := Some (concat (map (be_bytes 4) (sha (take 64 hb))))\<rparr>)"
    using hb pk
    by (simp add: CompactBlock_set_coinbase_transaction_def complete_merkle_edge_def
        compute_midstate_def)
  with hb show ?thesis by blast
qed

lemma stub_sha_valid: "length (stub_sha x) = 8 \<and> list_all is_u32 (stub_sha x)"
  by (simp add: stub_sha_def is_u32_def list_all_length)

lemma le_bytes_4:
  "le_bytes 4 i =
     [word_of_int i, word_of_int (drop_bit 8 i), word_of_int (drop_bit 8 (drop_bit 8 i)),
      word_of_int (drop_bit 8 (drop_bit 8 (drop_bit 8 i)))]"
proof -
  have "le_bytes (Suc (Suc (Suc (Suc 0)))) i =
     [word_of_int i, word_of_int (drop_bit 8 i), word_of_int (drop_bit 8 (drop_bit 8 i)),
      word_of_int (drop_bit 8 (drop_bit 8 (drop_bit 8 i)))]"
    by (simp only: le_bytes.simps)
  moreover have "(4::nat) = Suc (Suc (Suc (Suc 0)))" by simp
  ultimately show ?thesis by (simp only:)
qed

lemma example_set_coinbase:
  "CompactBlock_set_coinbase_transaction stub_dhash stub_sha example_compact_block
       (Some (example_txn 5 ins)) =
     (None,
      example_compact_block
        \<lparr>cb_txn := Some (example_txn 5 ins),
         block_header := example_header\<lparr>merkle_root_hash := replicate 32 5\<rparr>,
         midstate := Some (concat (replicate 8 [0, 0, 0, 64]))\<rparr>)"
  by (simp add: CompactBlock_set_coinbase_transaction_def complete_merkle_edge_def
      compute_midstate_def example_compact_block_def example_header_def example_txn_def
      BlockHeader_bytes_def pack_u32_def struct_pack_le_def length_le_bytes
      struct_pack_8I_def stub_sha_def is_u32_def list_all_length be_bytes_def le_bytes_4)

theorem CompactBlock_set_coinbase_unconditional_witness:
  "u32_header (block_header example_compact_block) \<and>
   is_u32 (nonce (block_header example_compact_block)) \<and>
   (\<forall>x. length (stub_sha x) = 8 \<and> list_all is_u32 (stub_sha x)) \<and>
   num_inputs (example_txn 5 [TransactionInput, TransactionInput]) = 2 \<and>
   CompactBlock_set_coinbase_transaction stub_dhash stub_sha example_compact_block
       (Some (example_txn 5 [TransactionInput, TransactionInput])) =
     (None,
      example_compact_block
        \<lparr>cb_txn := Some (example_txn 5 [TransactionInput, TransactionInput]),
         block_header := example_header\<lparr>merkle_root_hash := replicate 32 5\<rparr>,
         midstate := Some (concat (replicate 8 [0, 0, 0, 64]))\<rparr>)"
proof -
  have h1: "u32_header (block_header example_compact_block)"
    by (simp add: example_compact_block_def example_u32_header)
  have h2: "is_u32 (nonce (block_header example_compact_block))"
    by (simp add: example_compact_block_def example_header_def is_u32_def)
  have h3: "length (stub_sha x) = 8 \<and> list_all is_u32 (stub_sha x)" for x
    by (rule stub_sha_valid)
  have n: "num_inputs (example_txn 5 [TransactionInput, TransactionInput]) = 2"
    by (simp add: example_txn_def num_inputs_def)
  from CompactBlock_set_coinbase_unconditional
      [OF h1 h2 h3, of stub_dhash "example_txn 5 [TransactionInput, TransactionInput]"]
    h1 h2 h3 n example_set_coinbase [of "[TransactionInput, TransactionInput]"]
  show ?thesis by simp
qed

text \<open>
  Claim C9 as the code has it. A CompactBlock built with no coinbase transaction has
  \<^verbatim>\<open>_cb_txn\<close> \<open>None\<close>, no midstate and 32 zero bytes as merkle root; on it, with 32-bit
  header fields and nonce, \<^verbatim>\<open>compute_hash\<close> and \<^verbatim>\<open>check_valid_nonce\<close> raise nothing:
  they return the double hash of that placeholder header with the nonce, and whether it is
  below the decoded target. Nothing in block.py checks that a coinbase has been set.
\<close>

theorem uninitialized_compact_block_checks:
  assumes "CompactBlock_init dh sha h v p t bi edge None = Inr cblk"
    and "is_u32 v" and "is_u32 t" and "is_u32 bi" and "is_u32 n"
  shows "cb_txn cblk = None \<and> midstate cblk = None \<and>
      merkle_root_hash (block_header cblk) = replicate 32 0 \<and>
      (\<exists>tg hb.
         decode_compact_target bi = Inr tg \<and>
         BlockHeader_bytes ((block_header cblk)\<lparr>nonce := n\<rparr>) = Inr hb \<and>
         fst (compute_hash dh cblk n) = Inr (dh hb) \<and>
         fst (check_valid_nonce dh cblk n) = Inr (int_from_bytes_big (rev (dh hb)) < tg))"
proof -
  from assms(1) obtain tg where tg: "decode_compact_target bi = Inr tg"
    and c: "cblk = \<lparr>height = Some h,
          block_header = \<lparr>version = v, prev_block_hash = p,
            merkle_root_hash = replicate 32 0, time = t, bits = bi, nonce = 0\<rparr>,
          target = Some tg, merkle_edge = edge, cb_txn = None, midstate = None\<rparr>"
    by (auto simp: CompactBlock_init_def BlockBase_init_def split: sum.splits)
  from assms(2-5) obtain hb where
    hb: "BlockHeader_bytes ((block_header cblk)\<lparr>nonce := n\<rparr>) = Inr hb"
    by (simp add: c BlockHeader_bytes_u32)
  have tgt: "target cblk = Some tg" by (simp add: c)
  have ch: "fst (compute_hash dh cblk n) = Inr (dh hb)"
    using hb by (simp add: compute_hash_def BlockHeader_hash_def Let_def)
  have cv: "fst (check_valid_nonce dh cblk n) = Inr (int_from_bytes_big (rev (dh hb)) < tg)"
    using check_valid_nonce_generic [OF tgt hb, of dh] by simp
  have "cb_txn cblk = None \<and> midstate cblk = None \<and>
      merkle_root_hash (block_header cblk) = replicate 32 0"
    by (simp add: c)
  with tg hb ch cv show ?thesis by blast
qed

theorem uninitialized_compact_block_checks_witness:
  "CompactBlock_init stub_dhash stub_sha 0 1 (replicate 32 0) 0 0x1d00ffff [] None
     = Inr example_compact_block \<and>
   is_u32 1 \<and> is_u32 0 \<and> is_u32 0x1d00ffff \<and> is_u32 7 \<and>
   cb_txn example_compact_block = None \<and> midstate example_compact_block = None \<and>
   merkle_root_hash (block_header example_compact_block) = replicate 32 0 \<and>
   fst (check_valid_nonce stub_dhash example_compact_block 7) = Inr True"
proof -
  have i: "CompactBlock_init stub_dhash stub_sha 0 1 (replicate 32 0) 0 0x1d00ffff [] None
     = Inr example_compact_block"
    by (rule example_compact_block_init)
  have u: "is_u32 1" "is_u32 0" "is_u32 0x1d00ffff" "is_u32 7"
    by (simp_all add: is_u32_def)
  from uninitialized_compact_block_checks [OF i u] i u example_check
  show ?thesis by simp
qed

text \<open>
  Claim C9 as stated fails: on the CompactBlock built with no coinbase transaction,
  \<^verbatim>\<open>check_valid_nonce(7)\<close> and \<^verbatim>\<open>compute_hash(7)\<close> return values and signal no error.
\<close>

theorem uninitialized_compact_block_counterexample:
  "CompactBlock_init stub_dhash stub_sha 0 1 (replicate 32 0) 0 0x1d00ffff [] None
     = Inr example_compact_block \<and>
   cb_txn example_compact_block = None \<and>
   fst (check_valid_nonce stub_dhash example_compact_block 7) = Inr True \<and>
   fst (compute_hash stub_dhash example_compact_block 7) = Inr (80 # replicate 31 0)"
  by (simp add: example_compact_block_init example_check)
     (simp add: example_compact_block_def example_header_def compute_hash_def
        BlockHeader_hash_def BlockHeader_bytes_def pack_u32_def struct_pack_le_def
        length_le_bytes stub_dhash_def Let_def)

end
